theory Spec2Isabelle
  imports Main
begin

section \<open>The desktop controller of WindyProUltra (src/client/desktop/main.js)\<close>

text \<open>
  The file is the main process of an Electron application. It keeps three module-level
  variables (\<open>store\<close>, \<open>mainWindow\<close>, \<open>isRecording\<close>; \<open>tray\<close> is never assigned), creates
  one frameless window, registers two global shortcuts and installs five IPC handlers.
  Every function of the file is embedded below as a function on an explicit state; what
  the file reaches through Electron (the windows of the application, the shortcut
  registry, the clipboard, the console, the messages sent to a renderer) is a field of
  that state.
\<close>

subsection \<open>Values crossing the process boundary\<close>

text \<open>
  IPC payloads and the contents of the settings store are JSON-like values. Numbers are
  only ever stored and handed back, never computed with, so integers stand for them.
  An object is an association list; \<open>JObj []\<close> is the empty object \<open>{}\<close>.
\<close>

datatype js_value =
    JNull
  | JBool bool
  | JNum int
  | JStr string
  | JArr "js_value list"
  | JObj "(string \<times> js_value) list"

subsection \<open>The window and the state\<close>

type_synonym window_id = nat

text \<open>
  The options \<open>createMainWindow\<close> passes to \<open>new BrowserWindow\<close> (lines 14 to 30), and
  the visibility the shortcut callback reads and changes. The preload script and the
  loaded page are paths below the installation directory and are left out.
\<close>

record browser_window =
  win_width :: int
  win_height :: int
  win_x :: int
  win_y :: int
  frame :: bool
  transparent :: bool
  alwaysOnTop :: bool
  resizable :: bool
  skipTaskbar :: bool
  nodeIntegration :: bool
  contextIsolation :: bool
  backgroundThrottling :: bool
  visible :: bool

text \<open>The two callbacks handed to \<open>globalShortcut.register\<close> (lines 60 and 69).\<close>

datatype hotkey_action = ToggleRecording | ToggleWindow

text \<open>
  \<open>mainWindow\<close> is a reference: \<open>None\<close> is \<open>null\<close>, \<open>Some i\<close> refers to the window
  with identity \<open>i\<close>. \<open>windows\<close> holds the live windows of the application in creation
  order (what \<open>BrowserWindow.getAllWindows()\<close> returns); \<open>nextId\<close> is the identity the
  next \<open>new BrowserWindow\<close> receives. \<open>sent\<close> records every
  \<open>webContents.send(channel, payload)\<close> with the window it went to, \<open>console_log\<close> every
  line written by \<open>console.log\<close>.
\<close>

record state =
  mainWindow :: "window_id option"
  windows :: "(window_id \<times> browser_window) list"
  nextId :: window_id
  isRecording :: bool
  store :: "string \<rightharpoonup> js_value"
  shortcuts :: "string \<rightharpoonup> hotkey_action"
  clipboard :: string
  console_log :: "string list"
  sent :: "(window_id \<times> string \<times> js_value) list"

text \<open>
  Lines 5 to 8: the state once the module is loaded. \<open>new Store()\<close> opens the document
  persisted by earlier runs, and the clipboard belongs to the system, so both are given.
\<close>

definition initial_state :: "(string \<rightharpoonup> js_value) \<Rightarrow> string \<Rightarrow> state" where
  "initial_state persisted clip =
     \<lparr> mainWindow = None, windows = [], nextId = 1, isRecording = False,
       store = persisted, shortcuts = Map.empty, clipboard = clip,
       console_log = [], sent = [] \<rparr>"

subsection \<open>Window Manager\<close>

text \<open>
  \<open>createMainWindow\<close> (lines 11 to 40). The argument is
  \<open>screen.getPrimaryDisplay().workAreaSize\<close>. A \<open>BrowserWindow\<close> is shown as soon as it
  is created unless \<open>show: false\<close> is passed, which the file does not do.
\<close>

definition createMainWindow :: "int \<times> int \<Rightarrow> state \<Rightarrow> state" where
  "createMainWindow workAreaSize s =
     (let (width, height) = workAreaSize;
          w = \<lparr> win_width = 400, win_height = 600,
                win_x = width - 420, win_y = height - 620,
                frame = False, transparent = True, alwaysOnTop = True,
                resizable = True, skipTaskbar = False,
                nodeIntegration = False, contextIsolation = True,
                backgroundThrottling = False, visible = True \<rparr>
      in s\<lparr> mainWindow := Some (nextId s),
            windows := windows s @ [(nextId s, w)],
            nextId := Suc (nextId s) \<rparr>)"

text \<open>
  The \<open>closed\<close> callback (lines 34 to 36), run when window \<open>i\<close> has been closed: the
  window is gone from the application's windows and the callback clears the variable
  \<open>mainWindow\<close>, whichever window it referred to.
\<close>

definition on_closed :: "window_id \<Rightarrow> state \<Rightarrow> state" where
  "on_closed i s =
     (if i \<in> fst ` set (windows s)
      then s\<lparr> windows := filter (\<lambda>p. fst p \<noteq> i) (windows s), mainWindow := None \<rparr>
      else s)"

text \<open>\<open>createTray\<close> (lines 43 to 55): its whole body is commented out.\<close>

definition createTray :: "state \<Rightarrow> state" where
  "createTray s = s"

text \<open>The \<open>activate\<close> handler (lines 100 to 104).\<close>

definition on_activate :: "int \<times> int \<Rightarrow> state \<Rightarrow> state" where
  "on_activate workAreaSize s =
     (if length (windows s) = 0 then createMainWindow workAreaSize s else s)"

subsection \<open>Recording State Machine\<close>

text \<open>\<open>toggleRecording\<close> (lines 83 to 93).\<close>

definition toggleRecording :: "state \<Rightarrow> state" where
  "toggleRecording s =
     (let s1 = s\<lparr> isRecording := \<not> isRecording s \<rparr>;
          s2 = s1\<lparr> console_log := console_log s1 @
                  [''Recording state: '' @ (if isRecording s1 then ''true'' else ''false'')] \<rparr>
      in case mainWindow s2 of
           None \<Rightarrow> s2
         | Some w \<Rightarrow>
             s2\<lparr> sent := sent s2 @
                    [(w, ''toggle-recording'', JBool (isRecording s2)),
                     (w, ''state-change'',
                        JStr (if isRecording s2 then ''listening'' else ''idle''))] \<rparr>)"

text \<open>The two states of the specification, read off the flag.\<close>

datatype RecordingState = Idle | Listening

definition recordingState :: "state \<Rightarrow> RecordingState" where
  "recordingState s = (if isRecording s then Listening else Idle)"

definition stateLabel :: "RecordingState \<Rightarrow> string" where
  "stateLabel r = (case r of Listening \<Rightarrow> ''listening'' | Idle \<Rightarrow> ''idle'')"

subsection \<open>Hotkey Registrar\<close>

text \<open>
  Modelled from the spec: \<open>globalShortcut.register\<close> belongs to Electron and is not
  part of the file. Section 4.2: it "attempts OS-level global binding" and "returns
  success/failure"; a failed attempt "leaves the combination unbound", and a combination
  already registered is refused "without unregistering the first". Whether the system
  grants a combination is the parameter \<open>os_grants\<close>.
\<close>

definition globalShortcut_register ::
  "(string \<Rightarrow> bool) \<Rightarrow> string \<Rightarrow> hotkey_action \<Rightarrow> state \<Rightarrow> bool \<times> state" where
  "globalShortcut_register os_grants accelerator callback s =
     (if os_grants accelerator \<and> shortcuts s accelerator = None
      then (True, s\<lparr> shortcuts := (shortcuts s)(accelerator \<mapsto> callback) \<rparr>)
      else (False, s))"

text \<open>
  \<open>registerHotkeys\<close> (lines 58 to 81). \<open>retWindow\<close> is bound on line 69 and never read.
\<close>

definition registerHotkeys :: "(string \<Rightarrow> bool) \<Rightarrow> state \<Rightarrow> state" where
  "registerHotkeys os_grants s =
     (let (retRecord, s1) =
            globalShortcut_register os_grants ''CommandOrControl+Shift+Space'' ToggleRecording s;
          s2 = (if \<not> retRecord
                then s1\<lparr> console_log := console_log s1 @
                           [''Registration of Ctrl+Shift+Space failed''] \<rparr>
                else s1);
          (retWindow, s3) =
            globalShortcut_register os_grants ''CommandOrControl+Shift+W'' ToggleWindow s2
      in s3)"

text \<open>The callback of the second shortcut (lines 70 to 76).\<close>

definition toggleWindow :: "state \<Rightarrow> state" where
  "toggleWindow s =
     (case mainWindow s of
        None \<Rightarrow> s
      | Some i \<Rightarrow>
          s\<lparr> windows :=
               map (\<lambda>(j, w). if j = i then (j, w\<lparr> visible := \<not> visible w \<rparr>) else (j, w))
                 (windows s) \<rparr>)"

text \<open>The \<open>will-quit\<close> handler (lines 113 to 116).\<close>

definition on_will_quit :: "state \<Rightarrow> state" where
  "on_will_quit s = s\<lparr> shortcuts := Map.empty \<rparr>"

text \<open>
  The \<open>whenReady\<close> continuation (lines 95 to 98), from the state of the loaded module.
\<close>

definition startup ::
  "int \<times> int \<Rightarrow> (string \<Rightarrow> bool) \<Rightarrow> (string \<rightharpoonup> js_value) \<Rightarrow> string \<Rightarrow> state" where
  "startup workAreaSize os_grants persisted clip =
     registerHotkeys os_grants
       (createTray (createMainWindow workAreaSize (initial_state persisted clip)))"

subsection \<open>Settings Store\<close>

text \<open>
  Modelled from the spec: the \<open>electron-store\<close> package is not part of the file.
  Section 4.4: \<open>get(key, default)\<close> "returns the persisted value for key, or default if
  absent" and is "a pure read"; \<open>set(key, value)\<close> "persists value under key, overwriting
  any prior value".
\<close>

definition store_get :: "(string \<rightharpoonup> js_value) \<Rightarrow> string \<Rightarrow> js_value \<Rightarrow> js_value" where
  "store_get st key dflt = (case st key of None \<Rightarrow> dflt | Some v \<Rightarrow> v)"

definition store_set :: "(string \<rightharpoonup> js_value) \<Rightarrow> string \<Rightarrow> js_value \<Rightarrow> (string \<rightharpoonup> js_value)" where
  "store_set st key v = st(key \<mapsto> v)"

subsection \<open>Message Gateway\<close>

text \<open>
  The handlers registered with \<open>ipcMain.handle\<close> answer the renderer with the value
  they return and leave the state as it is; those registered with \<open>ipcMain.on\<close> return
  nothing to the renderer.
\<close>

text \<open>\<open>get-server-config\<close> (lines 121 to 126).\<close>

definition get_server_config :: "state \<Rightarrow> js_value" where
  "get_server_config s =
     JObj [(''host'', store_get (store s) ''server.host'' (JStr ''127.0.0.1'')),
           (''port'', store_get (store s) ''server.port'' (JNum 9876))]"

text \<open>\<open>get-settings\<close> (lines 129 to 131).\<close>

definition get_settings :: "state \<Rightarrow> js_value" where
  "get_settings s = store_get (store s) ''settings'' (JObj [])"

text \<open>\<open>update-settings\<close> (lines 134 to 136).\<close>

definition update_settings :: "js_value \<Rightarrow> state \<Rightarrow> state" where
  "update_settings settings s = s\<lparr> store := store_set (store s) ''settings'' settings \<rparr>"

text \<open>
  \<open>transcript-for-paste\<close> (lines 144 to 150). The payload of the channel is a text
  string; the empty string is the one string JavaScript counts as false on line 145.
  \<open>console.log\<close> separates its two arguments by a space.
\<close>

definition transcript_for_paste :: "string \<Rightarrow> state \<Rightarrow> state" where
  "transcript_for_paste text s =
     (if text \<noteq> []
      then s\<lparr> clipboard := text,
              console_log := console_log s @
                [''Transcript copied to clipboard for paste: '' @ take 20 text @ ''...''] \<rparr>
      else s)"

subsection \<open>The events of a running process\<close>

text \<open>
  What can happen between start and shutdown, and the handler the file runs for it: a
  shortcut is pressed, a window is closed, the application is activated (with the work
  area of the primary display at that moment), or the renderer uses one of its channels.
  The two requests answer with \<open>get_server_config\<close> and \<open>get_settings\<close> and leave the
  state as it is. \<open>app-quit\<close> and \<open>window-all-closed\<close> end the process and are no events
  of a running one.
\<close>

datatype event =
    HotkeyPressed string
  | WindowClosed window_id
  | AppActivate "int \<times> int"
  | IpcGetServerConfig
  | IpcGetSettings
  | IpcUpdateSettings js_value
  | IpcTranscriptForPaste string

fun step :: "event \<Rightarrow> state \<Rightarrow> state" where
  "step (HotkeyPressed accelerator) s =
     (case shortcuts s accelerator of
        None \<Rightarrow> s
      | Some ToggleRecording \<Rightarrow> toggleRecording s
      | Some ToggleWindow \<Rightarrow> toggleWindow s)"
| "step (WindowClosed i) s = on_closed i s"
| "step (AppActivate workAreaSize) s = on_activate workAreaSize s"
| "step IpcGetServerConfig s = s"
| "step IpcGetSettings s = s"
| "step (IpcUpdateSettings settings) s = update_settings settings s"
| "step (IpcTranscriptForPaste text) s = transcript_for_paste text s"

definition run :: "event list \<Rightarrow> state \<Rightarrow> state" where
  "run evs s = fold step evs s"

fun is_update :: "event \<Rightarrow> bool" where
  "is_update (IpcUpdateSettings _) = True"
| "is_update _ = False"

subsection \<open>The handle and the live windows\<close>

text \<open>
  The invariant behind the single handle: the application has no window and the handle
  is null, or it has exactly one window and the handle refers to it.
\<close>

definition single_window :: "state \<Rightarrow> bool" where
  "single_window s =
     (map fst (windows s) = (case mainWindow s of None \<Rightarrow> [] | Some i \<Rightarrow> [i]))"

subsection \<open>Concrete inputs\<close>

text \<open>
  A store in which nothing has been persisted, stores holding one half of the server
  configuration, and two answers of the operating system to a registration: every
  combination is granted, or every combination but one.
\<close>

definition empty_store :: "string \<rightharpoonup> js_value" where
  "empty_store = Map.empty"

definition store_host_only :: "string \<rightharpoonup> js_value" where
  "store_host_only = [''server.host'' \<mapsto> JStr ''10.0.0.5'']"

definition store_port_only :: "string \<rightharpoonup> js_value" where
  "store_port_only = [''server.port'' \<mapsto> JNum 8080]"

definition grants_all :: "string \<Rightarrow> bool" where
  "grants_all accelerator = True"

definition grants_all_but :: "string \<Rightarrow> string \<Rightarrow> bool" where
  "grants_all_but taken accelerator = (accelerator \<noteq> taken)"

section \<open>Properties\<close>

subsection \<open>Shared facts\<close>

lemma isRecording_toggleRecording [simp]:
  "isRecording (toggleRecording s) = (\<not> isRecording s)"
  by (simp add: toggleRecording_def Let_def split: option.split)

lemma isRecording_funpow_toggle:
  "isRecording ((toggleRecording ^^ n) s) = (isRecording s \<noteq> odd n)"
  by (induction n) auto

lemma isRecording_startup [simp]: "isRecording (startup d os st cb) = False"
  by (simp add: startup_def registerHotkeys_def globalShortcut_register_def createTray_def
      createMainWindow_def initial_state_def Let_def split: prod.split)

lemma store_toggleRecording [simp]: "store (toggleRecording s) = store s"
  by (simp add: toggleRecording_def Let_def split: option.split)

lemma store_toggleWindow [simp]: "store (toggleWindow s) = store s"
  by (simp add: toggleWindow_def split: option.split)

lemma store_on_closed [simp]: "store (on_closed i s) = store s"
  by (simp add: on_closed_def)

lemma store_createMainWindow [simp]: "store (createMainWindow d s) = store s"
  by (simp add: createMainWindow_def Let_def split: prod.split)

lemma store_on_activate [simp]: "store (on_activate d s) = store s"
  by (simp add: on_activate_def)

lemma store_transcript_for_paste [simp]: "store (transcript_for_paste t s) = store s"
  by (simp add: transcript_for_paste_def)

lemma store_step: "\<not> is_update e \<Longrightarrow> store (step e s) = store s"
  by (cases e) (simp_all split: option.split hotkey_action.split)

lemma store_run: "list_all (\<lambda>e. \<not> is_update e) evs \<Longrightarrow> store (run evs s) = store s"
  unfolding run_def by (induction evs arbitrary: s) (simp_all add: store_step)

lemma store_registerHotkeys [simp]: "store (registerHotkeys os s) = store s"
  by (simp add: registerHotkeys_def globalShortcut_register_def Let_def split: prod.split)

lemma store_startup [simp]: "store (startup d os st cb) = st"
  by (simp add: startup_def createTray_def initial_state_def)

lemma console_log_registerHotkeys:
  "console_log (registerHotkeys os s) =
     console_log s @
       (if os ''CommandOrControl+Shift+Space'' \<and> shortcuts s ''CommandOrControl+Shift+Space'' = None
        then [] else [''Registration of Ctrl+Shift+Space failed''])"
  by (simp add: registerHotkeys_def globalShortcut_register_def Let_def split: prod.split)

lemma store_fold_update_settings:
  "key \<noteq> ''settings'' \<Longrightarrow> store (fold update_settings Ss s) key = store s key"
  by (induction Ss arbitrary: s) (simp_all add: update_settings_def store_set_def)

subsection \<open>One window at most\<close>

text \<open>
  Start-up establishes the invariant and every event keeps it, so in every state the
  running process reaches the handle is null exactly when the application has no window.
\<close>

lemma single_window_startup: "single_window (startup d os st cb)"
  by (simp add: single_window_def startup_def registerHotkeys_def globalShortcut_register_def
      createTray_def createMainWindow_def initial_state_def Let_def split: prod.split)

lemma windows_toggleRecording [simp]: "windows (toggleRecording s) = windows s"
  by (simp add: toggleRecording_def Let_def split: option.split)

lemma mainWindow_toggleRecording [simp]: "mainWindow (toggleRecording s) = mainWindow s"
  by (simp add: toggleRecording_def Let_def split: option.split)

lemma single_window_toggleRecording [simp]:
  "single_window (toggleRecording s) = single_window s"
  by (simp add: single_window_def)

lemma single_window_toggleWindow:
  "single_window s \<Longrightarrow> single_window (toggleWindow s)"
  by (auto simp: single_window_def toggleWindow_def split: option.splits prod.splits)

lemma single_window_on_closed:
  "single_window s \<Longrightarrow> single_window (on_closed i s)"
  by (auto simp: single_window_def on_closed_def split: option.splits)

lemma single_window_on_activate:
  "single_window s \<Longrightarrow> single_window (on_activate d s)"
  by (auto simp: single_window_def on_activate_def createMainWindow_def Let_def
      split: option.splits prod.splits)

lemma single_window_step: "single_window s \<Longrightarrow> single_window (step e s)"
proof (cases e)
  case (HotkeyPressed a)
  assume "single_window s"
  then show ?thesis
    using HotkeyPressed
    by (simp add: single_window_toggleWindow split: option.split hotkey_action.split)
next
  case (IpcUpdateSettings v)
  assume "single_window s"
  then show ?thesis using IpcUpdateSettings
    by (simp add: single_window_def update_settings_def)
next
  case (IpcTranscriptForPaste t)
  assume "single_window s"
  then show ?thesis using IpcTranscriptForPaste
    by (simp add: single_window_def transcript_for_paste_def)
qed (simp_all add: single_window_on_closed single_window_on_activate)

lemma single_window_run: "single_window s \<Longrightarrow> single_window (run evs s)"
  unfolding run_def by (induction evs arbitrary: s) (simp_all add: single_window_step)

lemma handle_live_iff_window_exists:
  "(mainWindow (run evs (startup d os st cb)) = None)
     = (windows (run evs (startup d os st cb)) = [])"
  using single_window_run [OF single_window_startup, of evs d os st cb]
  by (auto simp: single_window_def split: option.splits)

subsection \<open>Recording state\<close>

text \<open>
  C1. Starting from Idle, after \<open>n\<close> calls of \<open>toggleRecording\<close> the recording state is
  Listening when \<open>n\<close> is odd and Idle when \<open>n\<close> is even. This holds from every state
  whose flag is false, in particular from the state of the freshly loaded module and
  from the state the start-up sequence leaves, whatever the display, the answers of the
  operating system, the persisted store and the clipboard are.
\<close>

theorem toggle_alternates:
  "recordingState ((toggleRecording ^^ n) (s\<lparr> isRecording := False \<rparr>))
     = (if odd n then Listening else Idle) \<and>
   recordingState ((toggleRecording ^^ n) (initial_state st cb))
     = (if odd n then Listening else Idle) \<and>
   recordingState ((toggleRecording ^^ n) (startup d os st cb))
     = (if odd n then Listening else Idle)"
  by (simp add: recordingState_def isRecording_funpow_toggle initial_state_def)

text \<open>
  C2. Every call of \<open>toggleRecording\<close> flips the flag and leaves the window handle as it
  is. When the handle refers to a window \<open>w\<close>, exactly two messages are appended to what
  has been sent, both to \<open>w\<close> and in this order: the new flag on \<open>toggle-recording\<close>, then
  the label of the new state on \<open>state-change\<close>. When the handle is null nothing is sent,
  and the state after the call differs from the state before it in the flag and the
  console only, so nothing is kept for a later delivery.
\<close>

theorem toggleRecording_notifies:
  "isRecording (toggleRecording s) = (\<not> isRecording s) \<and>
   mainWindow (toggleRecording s) = mainWindow s \<and>
   (\<forall>w. mainWindow s = Some w \<longrightarrow>
      sent (toggleRecording s) = sent s @
        [(w, ''toggle-recording'', JBool (isRecording (toggleRecording s))),
         (w, ''state-change'', JStr (stateLabel (recordingState (toggleRecording s))))]) \<and>
   (mainWindow s = None \<longrightarrow>
      sent (toggleRecording s) = sent s \<and>
      toggleRecording s =
        s\<lparr> isRecording := \<not> isRecording s,
           console_log := console_log (toggleRecording s) \<rparr>)"
  by (simp add: toggleRecording_def Let_def recordingState_def stateLabel_def
      split: option.split)

text \<open>
  The theorem at a state with a window (two successive toggles: first \<open>true\<close> and
  \<open>listening\<close>, then \<open>false\<close> and \<open>idle\<close>) and at the state of the loaded module, which
  has none.
\<close>

theorem toggleRecording_notifies_witness:
  "mainWindow (createMainWindow (1920, 1080) (initial_state empty_store [])) = Some 1 \<and>
   sent (toggleRecording (createMainWindow (1920, 1080) (initial_state empty_store []))) =
     [(1, ''toggle-recording'', JBool True), (1, ''state-change'', JStr ''listening'')] \<and>
   sent (toggleRecording (toggleRecording
       (createMainWindow (1920, 1080) (initial_state empty_store [])))) =
     [(1, ''toggle-recording'', JBool True), (1, ''state-change'', JStr ''listening''),
      (1, ''toggle-recording'', JBool False), (1, ''state-change'', JStr ''idle'')] \<and>
   mainWindow (initial_state empty_store []) = None \<and>
   isRecording (toggleRecording (initial_state empty_store [])) \<and>
   sent (toggleRecording (initial_state empty_store [])) = []"
  using toggleRecording_notifies [of "createMainWindow (1920, 1080) (initial_state empty_store [])"]
    toggleRecording_notifies
      [of "toggleRecording (createMainWindow (1920, 1080) (initial_state empty_store []))"]
    toggleRecording_notifies [of "initial_state empty_store []"]
  by (simp add: createMainWindow_def initial_state_def recordingState_def stateLabel_def)

subsection \<open>Window creation\<close>

text \<open>
  C3, as amended. \<open>createMainWindow\<close> has no guard of its own: in every state it
  instantiates one more window and makes the handle refer to it. The guard is at its
  call site in the \<open>activate\<close> handler: in every state in which the application has a
  window the handler changes nothing (no window is instantiated, the handle is
  unchanged), and in a state without windows it is \<open>createMainWindow\<close>. In the states the
  running process reaches, the application has a window exactly when the handle is not
  null, so there \<open>activate\<close> changes nothing whenever the handle is live.
\<close>

theorem create_guarded_at_activate:
  "mainWindow (createMainWindow d s) = Some (nextId s) \<and>
   length (windows (createMainWindow d s)) = Suc (length (windows s)) \<and>
   (windows s \<noteq> [] \<longrightarrow> on_activate d s = s) \<and>
   (windows s = [] \<longrightarrow> on_activate d s = createMainWindow d s) \<and>
   (mainWindow (run evs (startup d0 os st cb)) \<noteq> None \<longrightarrow>
      on_activate d (run evs (startup d0 os st cb)) = run evs (startup d0 os st cb))"
  by (simp add: handle_live_iff_window_exists)
    (simp add: on_activate_def createMainWindow_def Let_def split: prod.split)

text \<open>
  The theorem after one window has been created, where \<open>activate\<close> changes nothing, in
  the state of the loaded module, where it creates the first window, and after start-up
  and one press of the recording shortcut.
\<close>

theorem create_guarded_at_activate_witness:
  "windows (createMainWindow (1920, 1080) (initial_state empty_store [])) \<noteq> [] \<and>
   on_activate (1920, 1080) (createMainWindow (1920, 1080) (initial_state empty_store []))
     = createMainWindow (1920, 1080) (initial_state empty_store []) \<and>
   windows (initial_state empty_store []) = [] \<and>
   mainWindow (on_activate (1920, 1080) (initial_state empty_store [])) = Some 1 \<and>
   mainWindow (run [HotkeyPressed ''CommandOrControl+Shift+Space'']
      (startup (1920, 1080) grants_all empty_store [])) \<noteq> None \<and>
   on_activate (1920, 1080) (run [HotkeyPressed ''CommandOrControl+Shift+Space'']
      (startup (1920, 1080) grants_all empty_store []))
     = run [HotkeyPressed ''CommandOrControl+Shift+Space'']
         (startup (1920, 1080) grants_all empty_store [])"
  using create_guarded_at_activate
      [of "(1920, 1080)" "createMainWindow (1920, 1080) (initial_state empty_store [])"]
    create_guarded_at_activate
      [of "(1920, 1080)" "initial_state empty_store []"
          "[HotkeyPressed ''CommandOrControl+Shift+Space'']" "(1920, 1080)" grants_all
          empty_store "[]"]
  by (simp add: createMainWindow_def initial_state_def run_def startup_def createTray_def
      registerHotkeys_def globalShortcut_register_def grants_all_def empty_store_def)

text \<open>
  The claim as first stated fails: with window 1 alive and referred to by the handle, a
  further call of \<open>createMainWindow\<close> leaves two windows and a handle referring to
  window 2.
\<close>

theorem createMainWindow_replaces_handle_counterexample:
  "mainWindow (createMainWindow (1920, 1080) (initial_state empty_store [])) = Some 1 \<and>
   length (windows (createMainWindow (1920, 1080) (initial_state empty_store []))) = 1 \<and>
   mainWindow (createMainWindow (1920, 1080)
      (createMainWindow (1920, 1080) (initial_state empty_store []))) = Some 2 \<and>
   length (windows (createMainWindow (1920, 1080)
      (createMainWindow (1920, 1080) (initial_state empty_store [])))) = 2"
  by (simp add: createMainWindow_def initial_state_def)

text \<open>
  C7. With a primary display whose work area is \<open>(W, H)\<close>, \<open>createMainWindow\<close> adds
  exactly one window, the handle refers to it, and it lies at \<open>(W - 420, H - 620)\<close> with
  size \<open>(400, 600)\<close>. After start-up it is the only window, with identity 1.
\<close>

theorem createMainWindow_bounds:
  "mainWindow (createMainWindow (W, H) s) = Some (fst (last (windows (createMainWindow (W, H) s)))) \<and>
   butlast (windows (createMainWindow (W, H) s)) = windows s \<and>
   win_x (snd (last (windows (createMainWindow (W, H) s)))) = W - 420 \<and>
   win_y (snd (last (windows (createMainWindow (W, H) s)))) = H - 620 \<and>
   win_width (snd (last (windows (createMainWindow (W, H) s)))) = 400 \<and>
   win_height (snd (last (windows (createMainWindow (W, H) s)))) = 600 \<and>
   map (\<lambda>p. (fst p, win_x (snd p), win_y (snd p), win_width (snd p), win_height (snd p)))
     (windows (startup (W, H) os st cb)) = [(1, W - 420, H - 620, 400, 600)] \<and>
   mainWindow (startup (W, H) os st cb) = Some 1"
  by (simp add: createMainWindow_def startup_def registerHotkeys_def
      globalShortcut_register_def createTray_def initial_state_def Let_def split: prod.split)

subsection \<open>Hotkey registration\<close>

text \<open>
  C4 does not hold of the code for the second binding. When the operating system
  refuses \<open>CommandOrControl+Shift+W\<close> and nothing else, start-up leaves that combination
  unbound and the console empty: \<open>retWindow\<close> is never tested. The first binding is
  treated as the claim says: when \<open>CommandOrControl+Shift+Space\<close> is refused, it stays
  unbound and the console holds the line reporting it.
\<close>

theorem second_hotkey_failure_not_logged:
  "console_log (startup (1920, 1080) (grants_all_but ''CommandOrControl+Shift+W'') empty_store [])
     = [] \<and>
   shortcuts (startup (1920, 1080) (grants_all_but ''CommandOrControl+Shift+W'') empty_store [])
     ''CommandOrControl+Shift+W'' = None \<and>
   console_log (startup (1920, 1080) (grants_all_but ''CommandOrControl+Shift+Space'') empty_store [])
     = [''Registration of Ctrl+Shift+Space failed''] \<and>
   shortcuts (startup (1920, 1080) (grants_all_but ''CommandOrControl+Shift+Space'') empty_store [])
     ''CommandOrControl+Shift+Space'' = None"
  by (simp add: startup_def registerHotkeys_def globalShortcut_register_def createTray_def
      createMainWindow_def initial_state_def grants_all_but_def)

subsection \<open>Settings and server configuration\<close>

text \<open>
  C5. \<open>get-settings\<close> after \<open>update-settings(S)\<close> returns \<open>S\<close>: directly, and also after
  any events of the running process among which there is no further \<open>update-settings\<close>.
  When nothing is stored under \<open>settings\<close>, \<open>get-settings\<close> returns the empty object.
\<close>

theorem get_settings_after_update:
  "get_settings (update_settings S s) = S \<and>
   (list_all (\<lambda>e. \<not> is_update e) evs \<longrightarrow> get_settings (run evs (update_settings S s)) = S) \<and>
   (store s ''settings'' = None \<longrightarrow> get_settings s = JObj [])"
  by (simp add: get_settings_def store_run)
    (simp add: update_settings_def store_set_def store_get_def)

text \<open>
  The theorem after start-up on an empty store, with a shortcut, a transcript, a read
  and a closed window between the update and the read.
\<close>

theorem get_settings_after_update_witness:
  "list_all (\<lambda>e. \<not> is_update e)
     [HotkeyPressed ''CommandOrControl+Shift+Space'', IpcTranscriptForPaste ''hello'',
      IpcGetSettings, WindowClosed 1] \<and>
   get_settings (run
     [HotkeyPressed ''CommandOrControl+Shift+Space'', IpcTranscriptForPaste ''hello'',
      IpcGetSettings, WindowClosed 1]
     (update_settings (JObj [(''language'', JStr ''en'')])
        (startup (1920, 1080) grants_all empty_store [])))
     = JObj [(''language'', JStr ''en'')] \<and>
   store (startup (1920, 1080) grants_all empty_store []) ''settings'' = None \<and>
   get_settings (startup (1920, 1080) grants_all empty_store []) = JObj []"
  using get_settings_after_update
      [of "JObj [(''language'', JStr ''en'')]" "startup (1920, 1080) grants_all empty_store []"
          "[HotkeyPressed ''CommandOrControl+Shift+Space'', IpcTranscriptForPaste ''hello'',
            IpcGetSettings, WindowClosed 1]"]
    get_settings_after_update [of _ "startup (1920, 1080) grants_all empty_store []"]
  by (simp add: empty_store_def)

text \<open>
  C6. When neither \<open>server.host\<close> nor \<open>server.port\<close> is persisted, \<open>get-server-config\<close>
  returns the object with host \<open>127.0.0.1\<close> and port \<open>9876\<close>.
\<close>

theorem get_server_config_defaults:
  "store s ''server.host'' = None \<and> store s ''server.port'' = None \<Longrightarrow>
   get_server_config s = JObj [(''host'', JStr ''127.0.0.1''), (''port'', JNum 9876)]"
  by (simp add: get_server_config_def store_get_def)

text \<open>
  The theorem after start-up on an empty store.
\<close>

theorem get_server_config_defaults_witness:
  "store (startup (1920, 1080) grants_all empty_store []) ''server.host'' = None \<and>
   store (startup (1920, 1080) grants_all empty_store []) ''server.port'' = None \<and>
   get_server_config (startup (1920, 1080) grants_all empty_store [])
     = JObj [(''host'', JStr ''127.0.0.1''), (''port'', JNum 9876)]"
  using get_server_config_defaults [of "startup (1920, 1080) grants_all empty_store []"]
  by (simp add: empty_store_def)

text \<open>
  C9. \<open>update-settings(S)\<close> leaves the answer of \<open>get-server-config\<close> unchanged, and so
  does any sequence of updates: the handler writes the one key \<open>settings\<close>, which is
  neither \<open>server.host\<close> nor \<open>server.port\<close>.
\<close>

theorem update_settings_keeps_server_config:
  "get_server_config (update_settings S s) = get_server_config s \<and>
   get_server_config (fold update_settings Ss s) = get_server_config s \<and>
   store (update_settings S s) = (store s)(''settings'' \<mapsto> S) \<and>
   ''settings'' \<noteq> ''server.host'' \<and> ''settings'' \<noteq> ''server.port''"
  by (simp add: get_server_config_def update_settings_def store_set_def store_get_def
      store_fold_update_settings)

text \<open>
  C10. The two defaults of \<open>get-server-config\<close> are independent: with only
  \<open>server.host\<close> persisted the answer has the stored host and port \<open>9876\<close>; with only
  \<open>server.port\<close> persisted it has host \<open>127.0.0.1\<close> and the stored port.
\<close>

theorem get_server_config_field_defaults:
  "(store s ''server.host'' = Some h \<and> store s ''server.port'' = None \<longrightarrow>
      get_server_config s = JObj [(''host'', h), (''port'', JNum 9876)]) \<and>
   (store s ''server.host'' = None \<and> store s ''server.port'' = Some p \<longrightarrow>
      get_server_config s = JObj [(''host'', JStr ''127.0.0.1''), (''port'', p)])"
  by (simp add: get_server_config_def store_get_def)

text \<open>
  The theorem on a store holding only a host and on a store holding only a port.
\<close>

theorem get_server_config_field_defaults_witness:
  "store (initial_state store_host_only []) ''server.host'' = Some (JStr ''10.0.0.5'') \<and>
   store (initial_state store_host_only []) ''server.port'' = None \<and>
   get_server_config (initial_state store_host_only [])
     = JObj [(''host'', JStr ''10.0.0.5''), (''port'', JNum 9876)] \<and>
   store (initial_state store_port_only []) ''server.host'' = None \<and>
   store (initial_state store_port_only []) ''server.port'' = Some (JNum 8080) \<and>
   get_server_config (initial_state store_port_only [])
     = JObj [(''host'', JStr ''127.0.0.1''), (''port'', JNum 8080)]"
  using get_server_config_field_defaults
      [of "initial_state store_host_only []" "JStr ''10.0.0.5''"]
    get_server_config_field_defaults
      [of "initial_state store_port_only []" _ "JNum 8080"]
  by (simp add: initial_state_def store_host_only_def store_port_only_def)

subsection \<open>Clipboard\<close>

text \<open>
  C8, as amended. Every non-empty text received on \<open>transcript-for-paste\<close> is placed
  on the clipboard and no message is sent to a renderer; the empty text is ignored, the
  state stays as it is.
\<close>

theorem transcript_for_paste_copies_nonempty:
  "(text \<noteq> [] \<longrightarrow>
      clipboard (transcript_for_paste text s) = text \<and>
      sent (transcript_for_paste text s) = sent s) \<and>
   transcript_for_paste [] s = s"
  by (simp add: transcript_for_paste_def)

text \<open>
  The theorem for the text \<open>hello\<close>.
\<close>

theorem transcript_for_paste_copies_nonempty_witness:
  "''hello'' \<noteq> [] \<and>
   clipboard (transcript_for_paste ''hello'' (initial_state empty_store ''earlier'')) = ''hello'' \<and>
   sent (transcript_for_paste ''hello'' (initial_state empty_store ''earlier'')) = []"
  using transcript_for_paste_copies_nonempty [of "''hello''" "initial_state empty_store ''earlier''"]
  by (simp add: initial_state_def)

text \<open>
  The claim as first stated fails for the empty text: line 145 tests the text, the empty
  string counts as false, and the clipboard keeps what it held.
\<close>

theorem empty_transcript_not_copied_counterexample:
  "clipboard (transcript_for_paste [] (initial_state empty_store ''earlier'')) = ''earlier'' \<and>
   clipboard (transcript_for_paste [] (initial_state empty_store ''earlier'')) \<noteq> []"
  by (simp add: transcript_for_paste_def initial_state_def)

end
